theory Spec2Isabelle
  imports Complex_Main
begin

section \<open>Particle Lenia: data model\<close>

text \<open>
  The simulation core of \<^verbatim>\<open>main.js\<close>. JavaScript numbers are modelled as mathematical
  reals: rounding, overflow and the non-finite values that a division by zero produces are
  outside the model. Where a statement concludes from the value of a quotient, the divisor
  is taken as non-zero. Two places where the reals differ from the doubles of the source
  are kept out of the statements: with a spread of zero the peak function of the source
  returns a derivative that is not a number, and where \<open>(1 + t\<^sup>2 / 32) ^ 32\<close> exceeds the
  largest double it returns the value 0, which in the model is a small positive real.
  The display handle \<^verbatim>\<open>mesh\<close> of a particle and the scene are not part of the core and
  are left out.
\<close>

text \<open>\<^verbatim>\<open>THREE.Vector3\<close>: the three components \<^verbatim>\<open>x\<close>, \<^verbatim>\<open>y\<close>, \<^verbatim>\<open>z\<close>.\<close>

record Vector3 =
  comp_x :: real
  comp_y :: real
  comp_z :: real

definition zeroVector :: Vector3 where
  "zeroVector = \<lparr>comp_x = 0, comp_y = 0, comp_z = 0\<rparr>"

definition subVectors :: "Vector3 \<Rightarrow> Vector3 \<Rightarrow> Vector3" where
  "subVectors a b =
     \<lparr>comp_x = comp_x a - comp_x b, comp_y = comp_y a - comp_y b, comp_z = comp_z a - comp_z b\<rparr>"

definition multiplyScalar :: "Vector3 \<Rightarrow> real \<Rightarrow> Vector3" where
  "multiplyScalar v s = \<lparr>comp_x = comp_x v * s, comp_y = comp_y v * s, comp_z = comp_z v * s\<rparr>"

definition addScaledVector :: "Vector3 \<Rightarrow> Vector3 \<Rightarrow> real \<Rightarrow> Vector3" where
  "addScaledVector v w s =
     \<lparr>comp_x = comp_x v + comp_x w * s, comp_y = comp_y v + comp_y w * s,
      comp_z = comp_z v + comp_z w * s\<rparr>"

definition length3 :: "Vector3 \<Rightarrow> real" where
  "length3 v = sqrt (comp_x v * comp_x v + comp_y v * comp_y v + comp_z v * comp_z v)"

definition negate :: "Vector3 \<Rightarrow> Vector3" where
  "negate v = \<lparr>comp_x = - comp_x v, comp_y = - comp_y v, comp_z = - comp_z v\<rparr>"

text \<open>The three axes, as the selectors of the components.\<close>

definition axes :: "(Vector3 \<Rightarrow> real) list" where
  "axes = [comp_x, comp_y, comp_z]"

record leniaParams =
  mu_k :: real
  sigma_k :: real
  w_k :: real
  mu_g :: real
  sigma_g :: real
  c_rep :: real
  dt :: real
  steps_per_frame :: nat

record config =
  particleCount :: int
  worldSize :: real
  initialSpread :: real
  particleRenderSize :: real
  leniaParams :: leniaParams
  damping :: real

text \<open>The configuration object written in the source.\<close>

definition config0 :: config where
  "config0 =
     \<lparr>particleCount = 200, worldSize = 25, initialSpread = 12, particleRenderSize = 1 / 10,
      leniaParams =
        \<lparr>mu_k = 4, sigma_k = 1, w_k = 22 / 1000, mu_g = 6 / 10, sigma_g = 15 / 100,
         c_rep = 1, dt = 1 / 10, steps_per_frame = 10\<rparr>,
      damping = 98 / 100\<rparr>"

record particle =
  position :: Vector3
  velocity :: Vector3
  R_val :: real
  U_val :: real
  R_grad :: Vector3
  U_grad :: Vector3

text \<open>
  The only exception the core can raise: reading a property of \<^verbatim>\<open>undefined\<close>, when
  \<^verbatim>\<open>particles[i]\<close> is read beyond the end of the array.
\<close>

datatype error = TypeError

section \<open>Kernel math\<close>

definition fastExp :: "real \<Rightarrow> real" where
  "fastExp x = (let t = 1 + x / 32; t = t * t; t = t * t; t = t * t; t = t * t; t = t * t in t)"

definition peakFunction :: "real \<Rightarrow> real \<Rightarrow> real \<Rightarrow> real \<Rightarrow> real \<times> real" where
  "peakFunction r mu sigma w =
     (let t = (r - mu) / sigma;
          y_val = w / fastExp (t * t);
          deriv = - 2 * t * y_val / sigma
      in (y_val, deriv))"

definition repulsionFunction :: "real \<Rightarrow> real \<Rightarrow> real \<times> real" where
  "repulsionFunction r c =
     (let t = max (1 - r) 0;
          val = (1 / 2) * c * t * t;
          deriv = - c * t
      in (val, deriv))"

section \<open>Particle store\<close>

text \<open>
  The constructor of \<^verbatim>\<open>Particle\<close>. It calls \<^verbatim>\<open>Math.random()\<close> three times, for the
  three coordinates; the results of these calls for the \<open>k\<close>-th particle made by
  \<^verbatim>\<open>initParticles\<close> are given as a parameter, \<open>rnd k\<close>. Where these draws stand in the
  sequence of all results of \<^verbatim>\<open>Math.random()\<close> is left open, since the library draws from
  it as well when a mesh is made.
\<close>

definition Particle :: "config \<Rightarrow> (nat \<Rightarrow> real \<times> real \<times> real) \<Rightarrow> nat \<Rightarrow> particle" where
  "Particle cfg rnd k =
     (let (u1, u2, u3) = rnd k
      in \<lparr>position =
            \<lparr>comp_x = (u1 - 1 / 2) * initialSpread cfg,
             comp_y = (u2 - 1 / 2) * initialSpread cfg,
             comp_z = (u3 - 1 / 2) * initialSpread cfg\<rparr>,
          velocity = zeroVector,
          R_val = 0,
          U_val = 0,
          R_grad = zeroVector,
          U_grad = zeroVector\<rparr>)"

text \<open>
  \<^verbatim>\<open>initParticles\<close>: the array is emptied and the loop
  \<^verbatim>\<open>for (let i = 0; i < config.particleCount; i++)\<close> pushes one new particle per round.
  The function has no check and no \<^verbatim>\<open>throw\<close>, so the model has no error branch.
\<close>

definition initParticles :: "config \<Rightarrow> (nat \<Rightarrow> real \<times> real \<times> real) \<Rightarrow> error + particle list" where
  "initParticles cfg rnd = Inr (map (Particle cfg rnd) [0..<nat (particleCount cfg)])"

section \<open>Field computation\<close>

text \<open>The body of the first loop of \<^verbatim>\<open>computeFields\<close>: the self-terms.\<close>

definition resetFields :: "config \<Rightarrow> particle \<Rightarrow> particle" where
  "resetFields cfg p =
     p\<lparr>R_val := fst (repulsionFunction 0 (c_rep (leniaParams cfg))),
       U_val := fst (peakFunction 0 (mu_k (leniaParams cfg)) (sigma_k (leniaParams cfg))
                       (w_k (leniaParams cfg))),
       R_grad := zeroVector,
       U_grad := zeroVector\<rparr>"

text \<open>
  The body of the pair loop on the two particles \<^verbatim>\<open>p1 = particles[i]\<close> and
  \<^verbatim>\<open>p2 = particles[j]\<close>, which are distinct objects since \<open>i < j\<close>.
\<close>

definition interact :: "config \<Rightarrow> particle \<Rightarrow> particle \<Rightarrow> particle \<times> particle" where
  "interact cfg p1 p2 =
     (let diff = subVectors (position p1) (position p2);
          r = length3 diff + 1 / 10 ^ 20;
          norm_rx = comp_x diff / r;
          norm_ry = comp_y diff / r;
          norm_rz = comp_z diff / r;
          (p1, p2) =
            (if r < 1 then
               (let (R, dR) = repulsionFunction r (c_rep (leniaParams cfg))
                in (p1\<lparr>R_grad := \<lparr>comp_x = comp_x (R_grad p1) + norm_rx * dR,
                                  comp_y = comp_y (R_grad p1) + norm_ry * dR,
                                  comp_z = comp_z (R_grad p1) + norm_rz * dR\<rparr>,
                       R_val := R_val p1 + R\<rparr>,
                    p2\<lparr>R_grad := \<lparr>comp_x = comp_x (R_grad p2) - norm_rx * dR,
                                  comp_y = comp_y (R_grad p2) - norm_ry * dR,
                                  comp_z = comp_z (R_grad p2) - norm_rz * dR\<rparr>,
                       R_val := R_val p2 + R\<rparr>))
             else (p1, p2));
          (K, dK) = peakFunction r (mu_k (leniaParams cfg)) (sigma_k (leniaParams cfg))
                      (w_k (leniaParams cfg))
      in (p1\<lparr>U_grad := \<lparr>comp_x = comp_x (U_grad p1) + norm_rx * dK,
                        comp_y = comp_y (U_grad p1) + norm_ry * dK,
                        comp_z = comp_z (U_grad p1) + norm_rz * dK\<rparr>,
             U_val := U_val p1 + K\<rparr>,
          p2\<lparr>U_grad := \<lparr>comp_x = comp_x (U_grad p2) - norm_rx * dK,
                        comp_y = comp_y (U_grad p2) - norm_ry * dK,
                        comp_z = comp_z (U_grad p2) - norm_rz * dK\<rparr>,
             U_val := U_val p2 + K\<rparr>))"

text \<open>
  One round of the inner loop on the store. Reading \<^verbatim>\<open>particles[i]\<close> beyond the end
  of the array gives \<^verbatim>\<open>undefined\<close>, and reading its \<^verbatim>\<open>position\<close> throws.
\<close>

definition pairInteraction :: "config \<Rightarrow> nat \<Rightarrow> nat \<Rightarrow> particle list \<Rightarrow> error + particle list" where
  "pairInteraction cfg i j ps =
     (if i < length ps \<and> j < length ps then
        (let (p1, p2) = interact cfg (ps ! i) (ps ! j) in Inr (ps[i := p1, j := p2]))
      else Inl TypeError)"

text \<open>The inner loop over \<open>j\<close> and the outer loop over \<open>i\<close>, on the lists of indices they visit.\<close>

fun innerLoop :: "config \<Rightarrow> nat \<Rightarrow> nat list \<Rightarrow> particle list \<Rightarrow> error + particle list" where
  "innerLoop cfg i [] ps = Inr ps"
| "innerLoop cfg i (j # js) ps =
     (case pairInteraction cfg i j ps of
        Inl e \<Rightarrow> Inl e
      | Inr ps' \<Rightarrow> innerLoop cfg i js ps')"

fun outerLoop :: "config \<Rightarrow> nat \<Rightarrow> nat list \<Rightarrow> particle list \<Rightarrow> error + particle list" where
  "outerLoop cfg n [] ps = Inr ps"
| "outerLoop cfg n (i # is) ps =
     (case innerLoop cfg i [Suc i..<n] ps of
        Inl e \<Rightarrow> Inl e
      | Inr ps' \<Rightarrow> outerLoop cfg n is ps')"

definition computeFields :: "config \<Rightarrow> particle list \<Rightarrow> error + particle list" where
  "computeFields cfg ps =
     (let n = nat (particleCount cfg)
      in outerLoop cfg n [0..<n] (map (resetFields cfg) ps))"

section \<open>Integration and boundary wrap\<close>

text \<open>The body of the velocity loop of \<^verbatim>\<open>simulationStep\<close>.\<close>

definition updateVelocity :: "config \<Rightarrow> particle \<Rightarrow> particle" where
  "updateVelocity cfg p =
     (let (G_val, dG_val) = peakFunction (U_val p) (mu_g (leniaParams cfg))
                              (sigma_g (leniaParams cfg)) 1;
          dG_U_grad = multiplyScalar (U_grad p) dG_val;
          force = subVectors dG_U_grad (R_grad p);
          v = addScaledVector (velocity p) force (dt (leniaParams cfg));
          v = multiplyScalar v (damping cfg)
      in p\<lparr>velocity := v\<rparr>)"

text \<open>The two conditional statements that wrap one coordinate.\<close>

definition wrapCoordinate :: "config \<Rightarrow> real \<Rightarrow> real" where
  "wrapCoordinate cfg c =
     (let halfWorld = worldSize cfg / 2;
          c = (if c < - halfWorld then c + worldSize cfg else c);
          c = (if c > halfWorld then c - worldSize cfg else c)
      in c)"

text \<open>The body of the position loop of \<^verbatim>\<open>simulationStep\<close>.\<close>

definition updatePosition :: "config \<Rightarrow> particle \<Rightarrow> particle" where
  "updatePosition cfg p =
     (let q = addScaledVector (position p) (velocity p) (dt (leniaParams cfg))
      in p\<lparr>position := \<lparr>comp_x = wrapCoordinate cfg (comp_x q),
                         comp_y = wrapCoordinate cfg (comp_y q),
                         comp_z = wrapCoordinate cfg (comp_z q)\<rparr>\<rparr>)"

definition simulationStep :: "config \<Rightarrow> particle list \<Rightarrow> error + particle list" where
  "simulationStep cfg ps =
     (case computeFields cfg ps of
        Inl e \<Rightarrow> Inl e
      | Inr fs \<Rightarrow> Inr (map (updatePosition cfg) (map (updateVelocity cfg) fs)))"

text \<open>Repeated calls, as the loop of \<^verbatim>\<open>animate\<close> makes them.\<close>

fun runSteps :: "config \<Rightarrow> nat \<Rightarrow> particle list \<Rightarrow> error + particle list" where
  "runSteps cfg 0 ps = Inr ps"
| "runSteps cfg (Suc n) ps =
     (case simulationStep cfg ps of
        Inl e \<Rightarrow> Inl e
      | Inr ps' \<Rightarrow> runSteps cfg n ps')"

section \<open>The divisions of a step\<close>

text \<open>
  For each function of the core, the list of the divisors of the divisions it performs, in
  the order of the source: \<^verbatim>\<open>x / 32.0\<close> in \<^verbatim>\<open>fastExp\<close>; the two divisions by
  \<^verbatim>\<open>sigma\<close> and the division by the result of \<^verbatim>\<open>fastExp\<close> in \<^verbatim>\<open>peakFunction\<close>; the three
  divisions by \<^verbatim>\<open>r\<close> in the pair loop; \<^verbatim>\<open>config.worldSize / 2\<close> in the position loop.
  \<^verbatim>\<open>repulsionFunction\<close> divides nothing. The lists are those of a step that completes; the
  field computation does not move the particles, so the pair loop is read on the positions
  of the store it is given.
\<close>

definition fastExp_divisors :: "real \<Rightarrow> real list" where
  "fastExp_divisors x = [32]"

definition peakFunction_divisors :: "real \<Rightarrow> real \<Rightarrow> real \<Rightarrow> real list" where
  "peakFunction_divisors r mu sigma =
     (let t = (r - mu) / sigma
      in [sigma] @ fastExp_divisors (t * t) @ [fastExp (t * t), sigma])"

definition interact_divisors :: "config \<Rightarrow> particle \<Rightarrow> particle \<Rightarrow> real list" where
  "interact_divisors cfg p1 p2 =
     (let diff = subVectors (position p1) (position p2);
          r = length3 diff + 1 / 10 ^ 20
      in [r, r, r]
         @ peakFunction_divisors r (mu_k (leniaParams cfg)) (sigma_k (leniaParams cfg)))"

definition computeFields_divisors :: "config \<Rightarrow> particle list \<Rightarrow> real list" where
  "computeFields_divisors cfg ps =
     (let n = nat (particleCount cfg)
      in concat (map (\<lambda>p. peakFunction_divisors 0 (mu_k (leniaParams cfg))
                            (sigma_k (leniaParams cfg))) ps)
         @ concat (map (\<lambda>i. concat (map (\<lambda>j. interact_divisors cfg (ps ! i) (ps ! j))
                                      [Suc i..<n])) [0..<n]))"

definition simulationStep_divisors :: "config \<Rightarrow> particle list \<Rightarrow> real list" where
  "simulationStep_divisors cfg ps =
     (case computeFields cfg ps of
        Inl e \<Rightarrow> []
      | Inr fs \<Rightarrow>
          computeFields_divisors cfg ps
          @ concat (map (\<lambda>p. peakFunction_divisors (U_val p) (mu_g (leniaParams cfg))
                               (sigma_g (leniaParams cfg))) fs)
          @ concat (map (\<lambda>p. [2]) fs))"

section \<open>Notions used in the statements\<close>

text \<open>Sum of two vectors, to name the amount that an accumulation adds.\<close>

definition addVector :: "Vector3 \<Rightarrow> Vector3 \<Rightarrow> Vector3" where
  "addVector a b =
     \<lparr>comp_x = comp_x a + comp_x b, comp_y = comp_y a + comp_y b, comp_z = comp_z a + comp_z b\<rparr>"

text \<open>The floored distance \<^verbatim>\<open>r\<close> and the unit direction of a pair, as the pair loop computes them.\<close>

definition separation :: "particle \<Rightarrow> particle \<Rightarrow> real" where
  "separation p1 p2 = length3 (subVectors (position p1) (position p2)) + 1 / 10 ^ 20"

definition direction :: "particle \<Rightarrow> particle \<Rightarrow> Vector3" where
  "direction p1 p2 =
     (let diff = subVectors (position p1) (position p2)
      in \<lparr>comp_x = comp_x diff / separation p1 p2, comp_y = comp_y diff / separation p1 p2,
          comp_z = comp_z diff / separation p1 p2\<rparr>)"

text \<open>A particle without its velocity, and the four accumulators of a particle.\<close>

definition view :: "particle \<Rightarrow> particle" where
  "view p = p\<lparr>velocity := zeroVector\<rparr>"

definition accumulators :: "particle \<Rightarrow> real \<times> real \<times> Vector3 \<times> Vector3" where
  "accumulators p = (R_val p, U_val p, R_grad p, U_grad p)"

text \<open>The boundary wrap of the three coordinates of a vector.\<close>

definition wrapVector :: "config \<Rightarrow> Vector3 \<Rightarrow> Vector3" where
  "wrapVector cfg q =
     \<lparr>comp_x = wrapCoordinate cfg (comp_x q), comp_y = wrapCoordinate cfg (comp_y q),
      comp_z = wrapCoordinate cfg (comp_z q)\<rparr>"

text \<open>Two particles whose positions and velocities are negations of each other.\<close>

definition mirrored :: "particle \<Rightarrow> particle \<Rightarrow> bool" where
  "mirrored a b \<longleftrightarrow> position b = negate (position a) \<and> velocity b = negate (velocity a)"

section \<open>Example configurations and stores\<close>

text \<open>A particle at rest at a given place, with zero accumulators.\<close>

definition particleAt :: "real \<Rightarrow> real \<Rightarrow> real \<Rightarrow> particle" where
  "particleAt a b c =
     \<lparr>position = \<lparr>comp_x = a, comp_y = b, comp_z = c\<rparr>, velocity = zeroVector,
      R_val = 0, U_val = 0, R_grad = zeroVector, U_grad = zeroVector\<rparr>"

text \<open>The configuration of the source with one particle, and with two.\<close>

definition config1 :: config where
  "config1 = config0\<lparr>particleCount := 1\<rparr>"

definition config2 :: config where
  "config2 = config0\<lparr>particleCount := 2\<rparr>"

text \<open>Random draws that are the same for every particle.\<close>

definition rnd0 :: "nat \<Rightarrow> real \<times> real \<times> real" where
  "rnd0 k = (1 / 2, 1 / 2, 1 / 2)"

text \<open>Two particles at rest, placed symmetrically about the origin.\<close>

definition twoParticles :: "particle list" where
  "twoParticles = [particleAt (- 1) 0 0, particleAt 1 0 0]"

text \<open>A particle near the boundary that moves outward, slowly and fast.\<close>

definition movingParticle :: particle where
  "movingParticle = (particleAt 12 0 0)\<lparr>velocity := \<lparr>comp_x = 10, comp_y = 0, comp_z = 0\<rparr>\<rparr>"

definition fastParticle :: particle where
  "fastParticle = (particleAt 12 0 0)\<lparr>velocity := \<lparr>comp_x = 1000, comp_y = 0, comp_z = 0\<rparr>\<rparr>"

text \<open>The configuration with one particle and a kernel spread of zero.\<close>

definition configZeroSpread :: config where
  "configZeroSpread = config1\<lparr>leniaParams := (leniaParams config1)\<lparr>sigma_k := 0\<rparr>\<rparr>"

section \<open>Properties of the kernel math\<close>

lemma fastExp_power: "fastExp x = (1 + x / 32) ^ 32"
proof -
  have "(32::nat) = 2 * (2 * (2 * (2 * 2)))" by simp
  then have "(1 + x / 32) ^ 32 = (1 + x / 32) ^ (2 * (2 * (2 * (2 * 2))))" by simp
  also have "\<dots> = fastExp x"
    unfolding fastExp_def Let_def power_mult power2_eq_square ..
  finally show ?thesis by simp
qed

lemma fastExp_ge_one: "0 \<le> x \<Longrightarrow> 1 \<le> fastExp x"
  unfolding fastExp_power by (rule one_le_power) simp

lemma fastExp_ge_linear: "0 \<le> x \<Longrightarrow> 1 + x \<le> fastExp x"
proof -
  assume "0 \<le> x"
  then have "1 + of_nat 32 * (x / 32) \<le> (1 + x / 32) ^ 32"
    by (intro Bernoulli_inequality) simp
  then show ?thesis by (simp add: fastExp_power)
qed

lemma fastExp_le_exp: "0 \<le> x \<Longrightarrow> fastExp x \<le> exp x"
proof -
  assume "0 \<le> x"
  have "(1 + x / 32) ^ 32 \<le> exp (x / 32) ^ 32"
    using \<open>0 \<le> x\<close> by (intro power_mono) simp_all
  also have "\<dots> = exp (of_nat 32 * (x / 32))"
    by (simp only: exp_of_nat_mult)
  also have "\<dots> = exp x" by simp
  finally show ?thesis by (simp add: fastExp_power)
qed

text \<open>
  The approximation is not the exponential: in exact arithmetic it is strictly smaller for
  a positive argument, so the value returned one spread away from the peak is strictly
  above \<open>w \<sqdot> exp (- 1)\<close>.
\<close>

lemma fastExp_less_exp:
  assumes "0 < x"
  shows "fastExp x < exp x"
proof -
  have "1 + x / 32 + (x / 32)\<^sup>2 / 2 \<le> exp (x / 32)"
    using assms by (intro exp_lower_Taylor_quadratic) simp
  moreover have "0 < (x / 32)\<^sup>2 / 2"
    using assms by simp
  ultimately have "1 + x / 32 < exp (x / 32)" by linarith
  then have "(1 + x / 32) ^ 32 < exp (x / 32) ^ 32"
    using assms by (intro power_strict_mono) simp_all
  also have "\<dots> = exp (of_nat 32 * (x / 32))"
    by (simp only: exp_of_nat_mult)
  also have "\<dots> = exp x" by simp
  finally show ?thesis by (simp add: fastExp_power)
qed

lemma peakFunction_not_exact:
  "exp (- 1) < fst (peakFunction 1 0 1 1)"
proof -
  have "fastExp 1 < exp 1" by (rule fastExp_less_exp) simp
  moreover have "0 < fastExp 1" using fastExp_ge_one [of 1] by simp
  ultimately have "1 / exp 1 < 1 / fastExp 1"
    by (intro divide_strict_left_mono) simp_all
  then show ?thesis
    by (simp add: peakFunction_def Let_def exp_minus')
qed

text \<open>
  C6. For every \<open>r\<close> and \<open>c_rep\<close>, the repulsion function returns the pair with value
  \<open>0.5 \<sqdot> c_rep \<sqdot> t\<^sup>2\<close> and derivative \<open>- c_rep \<sqdot> t\<close>, where \<open>t = max (1 - r) 0\<close>; both
  components are exactly zero for every \<open>r \<ge> 1\<close>.
\<close>

theorem repulsionFunction_spec:
  "repulsionFunction r c = ((1 / 2) * c * (max (1 - r) 0)\<^sup>2, - c * max (1 - r) 0)
   \<and> (1 \<le> r \<longrightarrow> repulsionFunction r c = (0, 0))"
  by (simp add: repulsionFunction_def Let_def power2_eq_square max_def)

theorem repulsionFunction_spec_witness:
  "repulsionFunction (1 / 4) 2 = (9 / 16, - 3 / 2) \<and> (1::real) \<le> 3
   \<and> repulsionFunction 3 2 = (0, 0)"
  using repulsionFunction_spec [of "1 / 4" 2] repulsionFunction_spec [of 3 2]
  by (simp add: power2_eq_square)

text \<open>
  C5. For every \<open>r\<close>, \<open>mu\<close>, \<open>w\<close> and \<open>sigma \<noteq> 0\<close>, with \<open>t = (r - mu) / sigma\<close>, the peak
  function returns a value of \<open>w\<close> times an approximation of \<open>exp (- t\<^sup>2)\<close>, and the
  derivative \<open>- 2 \<sqdot> t \<sqdot> value / sigma\<close> computed from the returned value. The exponential is
  the approximation \<open>1 / (1 + t\<^sup>2 / 32) ^ 32\<close>, which lies between \<open>exp (- t\<^sup>2)\<close> and
  \<open>1 / (1 + t\<^sup>2)\<close>.
\<close>

theorem peakFunction_spec:
  assumes "sigma \<noteq> 0"
  shows "\<exists>t approx value.
           t = (r - mu) / sigma
         \<and> approx = 1 / (1 + t\<^sup>2 / 32) ^ 32
         \<and> exp (- t\<^sup>2) \<le> approx \<and> approx \<le> 1 / (1 + t\<^sup>2)
         \<and> value = w * approx
         \<and> peakFunction r mu sigma w = (value, - 2 * t * value / sigma)"
proof -
  define t where "t = (r - mu) / sigma"
  have nonneg: "0 \<le> t\<^sup>2" by simp
  have "0 < 1 + t\<^sup>2 / 32" by (simp add: add_pos_nonneg)
  then have pos: "0 < (1 + t\<^sup>2 / 32) ^ 32" by (rule zero_less_power)
  have lower: "exp (- t\<^sup>2) \<le> 1 / (1 + t\<^sup>2 / 32) ^ 32"
  proof -
    have "1 / exp (t\<^sup>2) \<le> 1 / (1 + t\<^sup>2 / 32) ^ 32"
      using fastExp_le_exp [OF nonneg] pos
      by (intro divide_left_mono) (simp_all add: fastExp_power)
    then show ?thesis by (simp add: exp_minus')
  qed
  have upper: "1 / (1 + t\<^sup>2 / 32) ^ 32 \<le> 1 / (1 + t\<^sup>2)"
  proof -
    have "0 < 1 + t\<^sup>2" by (simp add: add_pos_nonneg)
    then show ?thesis
      using fastExp_ge_linear [OF nonneg] pos
      by (intro divide_left_mono) (simp_all add: fastExp_power)
  qed
  have "peakFunction r mu sigma w =
          (w * (1 / (1 + t\<^sup>2 / 32) ^ 32), - 2 * t * (w * (1 / (1 + t\<^sup>2 / 32) ^ 32)) / sigma)"
    unfolding peakFunction_def Let_def fastExp_power t_def power2_eq_square by simp
  with lower upper show ?thesis
    unfolding t_def by blast
qed

theorem peakFunction_spec_witness:
  "(1::real) \<noteq> 0
   \<and> (\<exists>t approx value.
           t = (2 - 1) / 1
         \<and> approx = 1 / (1 + t\<^sup>2 / 32) ^ 32
         \<and> exp (- t\<^sup>2) \<le> approx \<and> approx \<le> 1 / (1 + t\<^sup>2)
         \<and> value = 3 * approx
         \<and> peakFunction 2 1 1 3 = (value, - 2 * t * value / 1))"
  using peakFunction_spec [where sigma = 1 and r = 2 and mu = 1 and w = 3] by simp

section \<open>Properties of the particle store\<close>

text \<open>
  C4, as amended. \<^verbatim>\<open>initParticles\<close> validates nothing and never fails: for every
  configuration it returns a store of \<open>max particleCount 0\<close> particles, each with zero
  velocity and zero field accumulators.
\<close>

theorem initParticles_never_fails:
  "\<exists>ps. initParticles cfg rnd = Inr ps
      \<and> length ps = nat (particleCount cfg)
      \<and> (\<forall>p \<in> set ps. velocity p = zeroVector \<and> R_val p = 0 \<and> U_val p = 0
                       \<and> R_grad p = zeroVector \<and> U_grad p = zeroVector)"
  by (auto simp: initParticles_def Particle_def Let_def split_beta)

theorem initParticles_never_fails_witness:
  "\<exists>ps. initParticles (config0\<lparr>particleCount := 2\<rparr>) rnd0 = Inr ps
      \<and> length ps = 2
      \<and> list_all (\<lambda>p. velocity p = zeroVector \<and> R_val p = 0 \<and> U_val p = 0
                       \<and> R_grad p = zeroVector \<and> U_grad p = zeroVector) ps"
  using initParticles_never_fails [of "config0\<lparr>particleCount := 2\<rparr>" rnd0]
  by (simp add: list_all_iff)

text \<open>
  The claim as written fails: a configuration with a negative particle count and a world
  size of zero is not rejected, and an empty store is returned; a configuration with a
  kernel spread of zero is not rejected either, and its particle is created.
\<close>

theorem initParticles_ConfigError_counterexample:
  "particleCount (config0\<lparr>particleCount := - 1, worldSize := 0\<rparr>) < 0
   \<and> worldSize (config0\<lparr>particleCount := - 1, worldSize := 0\<rparr>) \<le> 0
   \<and> initParticles (config0\<lparr>particleCount := - 1, worldSize := 0\<rparr>) rnd0 = Inr []
   \<and> sigma_k (leniaParams configZeroSpread) \<le> 0
   \<and> map_sum id length (initParticles configZeroSpread rnd0) = Inr 1"
  by (simp add: initParticles_def config0_def configZeroSpread_def config1_def)

section \<open>Properties of the field computation\<close>

lemma interact_eq:
  "interact cfg p1 p2 = (q1, q2) \<Longrightarrow>
   r = separation p1 p2 \<Longrightarrow> u = direction p1 p2 \<Longrightarrow>
   repulsionFunction r (c_rep (leniaParams cfg)) = (R, dR) \<Longrightarrow>
   peakFunction r (mu_k (leniaParams cfg)) (sigma_k (leniaParams cfg)) (w_k (leniaParams cfg)) = (K, dK) \<Longrightarrow>
   gR = (if r < 1 then multiplyScalar u dR else zeroVector) \<Longrightarrow>
   sR = (if r < 1 then R else 0) \<Longrightarrow>
     R_grad q1 = addVector (R_grad p1) gR \<and> R_grad q2 = addVector (R_grad p2) (negate gR)
   \<and> R_val q1 = R_val p1 + sR \<and> R_val q2 = R_val p2 + sR
   \<and> U_grad q1 = addVector (U_grad p1) (multiplyScalar u dK)
   \<and> U_grad q2 = addVector (U_grad p2) (negate (multiplyScalar u dK))
   \<and> U_val q1 = U_val p1 + K \<and> U_val q2 = U_val p2 + K
   \<and> position q1 = position p1 \<and> velocity q1 = velocity p1
   \<and> position q2 = position p2 \<and> velocity q2 = velocity p2"
  by (auto simp: interact_def Let_def separation_def direction_def addVector_def negate_def
      multiplyScalar_def zeroVector_def split: if_splits prod.splits)

lemma interact_kinematics:
  "interact cfg p1 p2 = (q1, q2) \<Longrightarrow>
     position q1 = position p1 \<and> velocity q1 = velocity p1
   \<and> position q2 = position p2 \<and> velocity q2 = velocity p2"
  by (auto simp: interact_def Let_def split: if_splits prod.splits)

lemma map_update_same: "(map f xs)[i := f (xs ! i)] = map f xs"
  by (simp add: map_update [symmetric])

lemma pairInteraction_length:
  "pairInteraction cfg i j ps = Inr ps' \<Longrightarrow> length ps' = length ps"
  by (auto simp: pairInteraction_def split: if_splits prod.splits)

lemma pairInteraction_kinematics:
  assumes "pairInteraction cfg i j ps = Inr ps'"
  shows "map position ps' = map position ps \<and> map velocity ps' = map velocity ps"
proof -
  from assms have ij: "i < length ps" "j < length ps"
    by (auto simp: pairInteraction_def split: if_splits)
  obtain q1 q2 where q: "interact cfg (ps ! i) (ps ! j) = (q1, q2)"
    by (cases "interact cfg (ps ! i) (ps ! j)")
  with assms ij have ps': "ps' = ps[i := q1, j := q2]"
    by (simp add: pairInteraction_def)
  from interact_kinematics [OF q] ij show ?thesis
    unfolding ps' by (simp add: map_update map_update_same)
qed

lemma pairInteraction_Inr:
  "i < length ps \<Longrightarrow> j < length ps \<Longrightarrow> \<exists>ps'. pairInteraction cfg i j ps = Inr ps'"
  by (simp add: pairInteraction_def split: prod.splits)

lemma innerLoop_kinematics:
  "innerLoop cfg i js ps = Inr ps' \<Longrightarrow>
   map position ps' = map position ps \<and> map velocity ps' = map velocity ps"
proof (induction js arbitrary: ps)
  case Nil
  then show ?case by simp
next
  case (Cons j js)
  then obtain qs where qs: "pairInteraction cfg i j ps = Inr qs" "innerLoop cfg i js qs = Inr ps'"
    by (auto split: sum.splits)
  from Cons.IH [OF qs(2)] pairInteraction_kinematics [OF qs(1)] show ?case by simp
qed

lemma innerLoop_Inr:
  "i < length ps \<Longrightarrow> \<forall>j \<in> set js. j < length ps \<Longrightarrow> \<exists>ps'. innerLoop cfg i js ps = Inr ps'"
proof (induction js arbitrary: ps)
  case Nil
  then show ?case by simp
next
  case (Cons j js)
  then obtain qs where qs: "pairInteraction cfg i j ps = Inr qs"
    using pairInteraction_Inr [of i ps j cfg] by auto
  then have "length qs = length ps" by (rule pairInteraction_length)
  with Cons qs show ?case by simp
qed

lemma outerLoop_kinematics:
  "outerLoop cfg n is ps = Inr ps' \<Longrightarrow>
   map position ps' = map position ps \<and> map velocity ps' = map velocity ps"
proof (induction "is" arbitrary: ps)
  case Nil
  then show ?case by simp
next
  case (Cons i "is")
  then obtain qs where qs: "innerLoop cfg i [Suc i..<n] ps = Inr qs" "outerLoop cfg n is qs = Inr ps'"
    by (auto split: sum.splits)
  from Cons.IH [OF qs(2)] innerLoop_kinematics [OF qs(1)] show ?case by simp
qed

lemma outerLoop_Inr:
  "n \<le> length ps \<Longrightarrow> \<forall>i \<in> set is. i < n \<Longrightarrow> \<exists>ps'. outerLoop cfg n is ps = Inr ps'"
proof (induction "is" arbitrary: ps)
  case Nil
  then show ?case by simp
next
  case (Cons i "is")
  then obtain qs where qs: "innerLoop cfg i [Suc i..<n] ps = Inr qs"
    using innerLoop_Inr [of i ps "[Suc i..<n]" cfg] by auto
  then have "map position qs = map position ps" by (simp add: innerLoop_kinematics)
  then have "length qs = length ps" by (rule map_eq_imp_length_eq)
  with Cons qs show ?case by simp
qed

lemma resetFields_kinematics:
  "map position (map (resetFields cfg) ps) = map position ps"
  "map velocity (map (resetFields cfg) ps) = map velocity ps"
  by (simp_all add: resetFields_def)

lemma computeFields_kinematics:
  "computeFields cfg ps = Inr fs \<Longrightarrow>
   map position fs = map position ps \<and> map velocity fs = map velocity ps"
  unfolding computeFields_def Let_def
  using outerLoop_kinematics resetFields_kinematics by metis

lemma computeFields_length:
  "computeFields cfg ps = Inr fs \<Longrightarrow> length fs = length ps"
  using computeFields_kinematics map_eq_imp_length_eq by blast

lemma computeFields_Inr:
  "nat (particleCount cfg) \<le> length ps \<Longrightarrow> \<exists>fs. computeFields cfg ps = Inr fs"
  unfolding computeFields_def Let_def
  by (rule outerLoop_Inr) simp_all

text \<open>The field computation does not look at the velocities.\<close>

lemma interact_view:
  "interact cfg (view p1) (view p2) = map_prod view view (interact cfg p1 p2)"
  by (simp add: interact_def Let_def view_def split: if_splits prod.splits)

lemma pairInteraction_view:
  "pairInteraction cfg i j (map view ps) = map_sum id (map view) (pairInteraction cfg i j ps)"
  by (simp add: pairInteraction_def interact_view map_update split: prod.splits)

lemma innerLoop_view:
  "innerLoop cfg i js (map view ps) = map_sum id (map view) (innerLoop cfg i js ps)"
  by (induction js arbitrary: ps) (simp_all add: pairInteraction_view split: sum.splits)

lemma outerLoop_view:
  "outerLoop cfg n is (map view ps) = map_sum id (map view) (outerLoop cfg n is ps)"
  by (induction "is" arbitrary: ps) (simp_all add: innerLoop_view split: sum.splits)

lemma resetFields_view: "resetFields cfg (view p) = view (resetFields cfg p)"
  by (simp add: resetFields_def view_def)

lemma computeFields_view:
  "computeFields cfg (map view ps) = map_sum id (map view) (computeFields cfg ps)"
proof -
  have "map (resetFields cfg) (map view ps) = map view (map (resetFields cfg) ps)"
    by (simp add: resetFields_view)
  then show ?thesis
    by (simp only: computeFields_def Let_def outerLoop_view)
qed

text \<open>
  C2. For a pair \<open>i \<noteq> j\<close> of the store, one round of the pair loop adds to the gradient
  accumulators of \<open>j\<close> the exact negation of what it adds to those of \<open>i\<close>, and adds the
  same scalar to the value accumulators of both. The repulsion amounts are applied exactly
  when the floored distance \<open>r\<close> is below 1 (otherwise \<^verbatim>\<open>R_grad\<close> and \<^verbatim>\<open>R_val\<close> stay as
  they are), the kernel amounts are applied for every pair, and no other particle changes.
\<close>

theorem pairInteraction_antisymmetric:
  assumes "i < length ps" and "j < length ps" and "i \<noteq> j"
  shows "\<exists>ps' r u R dR K dK gR sR gU.
           pairInteraction cfg i j ps = Inr ps' \<and> length ps' = length ps
         \<and> r = separation (ps ! i) (ps ! j) \<and> u = direction (ps ! i) (ps ! j)
         \<and> repulsionFunction r (c_rep (leniaParams cfg)) = (R, dR)
         \<and> peakFunction r (mu_k (leniaParams cfg)) (sigma_k (leniaParams cfg))
              (w_k (leniaParams cfg)) = (K, dK)
         \<and> gR = (if r < 1 then multiplyScalar u dR else zeroVector)
         \<and> sR = (if r < 1 then R else 0)
         \<and> gU = multiplyScalar u dK
         \<and> R_grad (ps' ! i) = addVector (R_grad (ps ! i)) gR
         \<and> R_grad (ps' ! j) = addVector (R_grad (ps ! j)) (negate gR)
         \<and> R_val (ps' ! i) = R_val (ps ! i) + sR
         \<and> R_val (ps' ! j) = R_val (ps ! j) + sR
         \<and> U_grad (ps' ! i) = addVector (U_grad (ps ! i)) gU
         \<and> U_grad (ps' ! j) = addVector (U_grad (ps ! j)) (negate gU)
         \<and> U_val (ps' ! i) = U_val (ps ! i) + K
         \<and> U_val (ps' ! j) = U_val (ps ! j) + K
         \<and> (\<not> r < 1 \<longrightarrow> R_grad (ps' ! i) = R_grad (ps ! i) \<and> R_grad (ps' ! j) = R_grad (ps ! j)
                \<and> R_val (ps' ! i) = R_val (ps ! i) \<and> R_val (ps' ! j) = R_val (ps ! j))
         \<and> (\<forall>k < length ps. k \<noteq> i \<longrightarrow> k \<noteq> j \<longrightarrow> ps' ! k = ps ! k)"
proof -
  obtain q1 q2 where q: "interact cfg (ps ! i) (ps ! j) = (q1, q2)"
    by (cases "interact cfg (ps ! i) (ps ! j)")
  define ps' where "ps' = ps[i := q1, j := q2]"
  have run: "pairInteraction cfg i j ps = Inr ps'"
    using assms q by (simp add: pairInteraction_def ps'_def)
  have nth: "ps' ! i = q1" "ps' ! j = q2" "length ps' = length ps"
    using assms by (simp_all add: ps'_def)
  have others: "\<forall>k < length ps. k \<noteq> i \<longrightarrow> k \<noteq> j \<longrightarrow> ps' ! k = ps ! k"
    by (simp add: ps'_def)
  define r where "r = separation (ps ! i) (ps ! j)"
  define u where "u = direction (ps ! i) (ps ! j)"
  obtain R dR where R: "repulsionFunction r (c_rep (leniaParams cfg)) = (R, dR)"
    by (cases "repulsionFunction r (c_rep (leniaParams cfg))")
  obtain K dK where K: "peakFunction r (mu_k (leniaParams cfg)) (sigma_k (leniaParams cfg))
              (w_k (leniaParams cfg)) = (K, dK)"
    by (cases "peakFunction r (mu_k (leniaParams cfg)) (sigma_k (leniaParams cfg))
              (w_k (leniaParams cfg))")
  define gR where "gR = (if r < 1 then multiplyScalar u dR else zeroVector)"
  define sR where "sR = (if r < 1 then R else 0)"
  note eq = interact_eq [OF q r_def u_def R K gR_def sR_def]
  have unchanged: "\<not> r < 1 \<longrightarrow> R_grad q1 = R_grad (ps ! i) \<and> R_grad q2 = R_grad (ps ! j)
                \<and> R_val q1 = R_val (ps ! i) \<and> R_val q2 = R_val (ps ! j)"
    using eq by (simp add: gR_def sR_def addVector_def negate_def zeroVector_def)
  define gU where "gU = multiplyScalar u dK"
  have main:
    "pairInteraction cfg i j ps = Inr ps' \<and> length ps' = length ps
         \<and> r = separation (ps ! i) (ps ! j) \<and> u = direction (ps ! i) (ps ! j)
         \<and> repulsionFunction r (c_rep (leniaParams cfg)) = (R, dR)
         \<and> peakFunction r (mu_k (leniaParams cfg)) (sigma_k (leniaParams cfg))
              (w_k (leniaParams cfg)) = (K, dK)
         \<and> gR = (if r < 1 then multiplyScalar u dR else zeroVector)
         \<and> sR = (if r < 1 then R else 0)
         \<and> gU = multiplyScalar u dK
         \<and> R_grad (ps' ! i) = addVector (R_grad (ps ! i)) gR
         \<and> R_grad (ps' ! j) = addVector (R_grad (ps ! j)) (negate gR)
         \<and> R_val (ps' ! i) = R_val (ps ! i) + sR
         \<and> R_val (ps' ! j) = R_val (ps ! j) + sR
         \<and> U_grad (ps' ! i) = addVector (U_grad (ps ! i)) gU
         \<and> U_grad (ps' ! j) = addVector (U_grad (ps ! j)) (negate gU)
         \<and> U_val (ps' ! i) = U_val (ps ! i) + K
         \<and> U_val (ps' ! j) = U_val (ps ! j) + K
         \<and> (\<not> r < 1 \<longrightarrow> R_grad (ps' ! i) = R_grad (ps ! i) \<and> R_grad (ps' ! j) = R_grad (ps ! j)
                \<and> R_val (ps' ! i) = R_val (ps ! i) \<and> R_val (ps' ! j) = R_val (ps ! j))
         \<and> (\<forall>k < length ps. k \<noteq> i \<longrightarrow> k \<noteq> j \<longrightarrow> ps' ! k = ps ! k)"
    using run nth(3) others R K unchanged r_def u_def gR_def sR_def gU_def eq
    unfolding nth(1,2) gU_def [symmetric]
    by (intro conjI) (fast+)
  show ?thesis
    by (rule exI)+ (rule main)
qed

theorem pairInteraction_antisymmetric_witness:
  "(0::nat) < length twoParticles \<and> 1 < length twoParticles \<and> (0::nat) \<noteq> 1
   \<and> (\<exists>ps' gR gU sR K.
         pairInteraction config2 0 1 twoParticles = Inr ps' \<and> length ps' = 2
       \<and> R_grad (ps' ! 0) = addVector (R_grad (twoParticles ! 0)) gR
       \<and> R_grad (ps' ! 1) = addVector (R_grad (twoParticles ! 1)) (negate gR)
       \<and> U_grad (ps' ! 0) = addVector (U_grad (twoParticles ! 0)) gU
       \<and> U_grad (ps' ! 1) = addVector (U_grad (twoParticles ! 1)) (negate gU)
       \<and> R_val (ps' ! 0) = R_val (twoParticles ! 0) + sR
       \<and> R_val (ps' ! 1) = R_val (twoParticles ! 1) + sR
       \<and> U_val (ps' ! 0) = U_val (twoParticles ! 0) + K
       \<and> U_val (ps' ! 1) = U_val (twoParticles ! 1) + K)"
proof -
  have h: "0 < length twoParticles" "1 < length twoParticles" "(0::nat) \<noteq> 1"
    by (simp_all add: twoParticles_def)
  have l: "length twoParticles = 2"
    by (simp add: twoParticles_def)
  from pairInteraction_antisymmetric [OF h, of config2] h show ?thesis
    unfolding l by blast
qed

text \<open>The accumulators that the field computation leaves depend on the positions only.\<close>

lemma map_eq_transfer:
  assumes "map f xs = map f ys" and "\<And>x y. f x = f y \<Longrightarrow> g x = g y"
  shows "map g xs = map g ys"
proof (rule nth_equalityI)
  show len: "length (map g xs) = length (map g ys)"
    using assms(1) map_eq_imp_length_eq by fastforce
  fix i assume "i < length (map g xs)"
  then have i: "i < length xs" "i < length ys" using len by simp_all
  have "map f xs ! i = map f ys ! i" using assms(1) by simp
  with i have "f (xs ! i) = f (ys ! i)" by simp
  then have "g (xs ! i) = g (ys ! i)" by (rule assms(2))
  with i show "map g xs ! i = map g ys ! i" by simp
qed

lemma resetFields_view_position:
  "position p = position q \<Longrightarrow> resetFields cfg (view p) = resetFields cfg (view q)"
  by (cases p; cases q) (simp add: resetFields_def view_def)

lemma accumulators_view: "accumulators (view p) = accumulators p"
  by (simp add: accumulators_def view_def)

lemma computeFields_positions_only:
  assumes "map position qs = map position ps"
  shows "map_sum id (map view) (computeFields cfg qs) = map_sum id (map view) (computeFields cfg ps)"
proof -
  have "map (\<lambda>p. resetFields cfg (view p)) qs = map (\<lambda>p. resetFields cfg (view p)) ps"
    using assms by (rule map_eq_transfer) (rule resetFields_view_position)
  then have "map (resetFields cfg) (map view qs) = map (resetFields cfg) (map view ps)"
    by (simp add: comp_def)
  then have "computeFields cfg (map view qs) = computeFields cfg (map view ps)"
    by (simp only: computeFields_def)
  then show ?thesis by (simp only: computeFields_view)
qed

lemma computeFields_nth:
  assumes "computeFields cfg ps = Inr fs" and "i < length ps"
  shows "position (fs ! i) = position (ps ! i)" and "velocity (fs ! i) = velocity (ps ! i)"
proof -
  have len: "length fs = length ps"
    using assms(1) by (rule computeFields_length)
  have "map position fs ! i = map position ps ! i" "map velocity fs ! i = map velocity ps ! i"
    using computeFields_kinematics [OF assms(1)] by simp_all
  with assms(2) len show "position (fs ! i) = position (ps ! i)"
    and "velocity (fs ! i) = velocity (ps ! i)"
    by simp_all
qed

text \<open>
  C10. The field computation changes only the four accumulators: the store keeps its length
  and every particle its position and velocity. It overwrites the accumulators before it
  accumulates, so on any store with the same positions, whatever its accumulators and
  velocities, it succeeds as well and leaves the same accumulators.
\<close>

theorem computeFields_frame:
  assumes "computeFields cfg ps = Inr fs"
  shows "length fs = length ps
       \<and> (\<forall>i < length ps. position (fs ! i) = position (ps ! i)
                         \<and> velocity (fs ! i) = velocity (ps ! i))
       \<and> (\<forall>qs. map position qs = map position ps \<longrightarrow>
             (\<exists>gs. computeFields cfg qs = Inr gs
                 \<and> map accumulators gs = map accumulators fs))"
proof -
  have len: "length fs = length ps"
    using assms by (rule computeFields_length)
  have kin: "map position fs = map position ps" "map velocity fs = map velocity ps"
    using computeFields_kinematics [OF assms] by simp_all
  have frame: "\<forall>i < length ps. position (fs ! i) = position (ps ! i)
                         \<and> velocity (fs ! i) = velocity (ps ! i)"
  proof (intro allI impI)
    fix i assume i: "i < length ps"
    have "map position fs ! i = map position ps ! i" "map velocity fs ! i = map velocity ps ! i"
      using kin by simp_all
    with i len show "position (fs ! i) = position (ps ! i) \<and> velocity (fs ! i) = velocity (ps ! i)"
      by simp
  qed
  have indep: "\<exists>gs. computeFields cfg qs = Inr gs \<and> map accumulators gs = map accumulators fs"
    if qs: "map position qs = map position ps" for qs
  proof -
    from computeFields_positions_only [OF qs, of cfg] assms
    obtain gs where gs: "computeFields cfg qs = Inr gs" "map view gs = map view fs"
      by (cases "computeFields cfg qs") auto
    have "map accumulators (map view gs) = map accumulators (map view fs)"
      using gs(2) by simp
    then have "map accumulators gs = map accumulators fs"
      by (simp add: comp_def accumulators_view)
    with gs(1) show ?thesis by blast
  qed
  show ?thesis using len frame indep by blast
qed

theorem computeFields_frame_witness:
  "(\<exists>fs. computeFields config2 twoParticles = Inr fs \<and> length fs = 2
        \<and> position (fs ! 0) = position (twoParticles ! 0)
        \<and> velocity (fs ! 1) = velocity (twoParticles ! 1)
        \<and> (\<exists>gs. computeFields config2 (map (\<lambda>p. p\<lparr>velocity := position p, U_val := 7\<rparr>) twoParticles)
                   = Inr gs
                \<and> map accumulators gs = map accumulators fs))"
proof -
  have "nat (particleCount config2) \<le> length twoParticles"
    by (simp add: config2_def twoParticles_def)
  then obtain fs where fs: "computeFields config2 twoParticles = Inr fs"
    using computeFields_Inr by blast
  have l: "length twoParticles = 2"
    by (simp add: twoParticles_def)
  have q: "map position (map (\<lambda>p. p\<lparr>velocity := position p, U_val := 7\<rparr>) twoParticles)
             = map position twoParticles"
    by simp
  from computeFields_frame [OF fs] fs q show ?thesis
    unfolding l by (intro exI [of _ fs]) simp
qed

section \<open>Properties of the integration step\<close>

lemma updateVelocity_eq:
  "peakFunction (U_val p) (mu_g (leniaParams cfg)) (sigma_g (leniaParams cfg)) 1 = (G, dG) \<Longrightarrow>
   updateVelocity cfg p =
     p\<lparr>velocity := multiplyScalar
           (addScaledVector (velocity p)
              (subVectors (multiplyScalar (U_grad p) dG) (R_grad p)) (dt (leniaParams cfg)))
           (damping cfg)\<rparr>"
  by (simp add: updateVelocity_def Let_def)

lemma updatePosition_eq:
  "updatePosition cfg p =
     p\<lparr>position := wrapVector cfg
           (addScaledVector (position p) (velocity p) (dt (leniaParams cfg)))\<rparr>"
  by (simp add: updatePosition_def wrapVector_def Let_def)

text \<open>
  C1. On a store that holds at least \<^verbatim>\<open>particleCount\<close> particles, one step computes the
  fields \<open>fs\<close>, then the velocity pass gives every particle the velocity
  \<open>(old velocity + force \<sqdot> dt) \<sqdot> damping\<close> with \<open>force = dG \<sqdot> U_grad - R_grad\<close> and
  \<open>(G, dG)\<close> the peak function with weight 1 at the accumulated \<^verbatim>\<open>U_val\<close> of the particle.
  In the store \<open>vs\<close> that the velocity pass leaves, every position is still the one before
  the step. Only then the position pass moves every particle to
  \<open>position + new velocity \<sqdot> dt\<close>, wrapped at the boundary, and keeps the velocities.
\<close>

theorem simulationStep_phases:
  assumes "nat (particleCount cfg) \<le> length ps"
  shows "\<exists>fs vs ps'.
           computeFields cfg ps = Inr fs \<and> length fs = length ps
         \<and> vs = map (updateVelocity cfg) fs
         \<and> ps' = map (updatePosition cfg) vs
         \<and> simulationStep cfg ps = Inr ps'
         \<and> (\<forall>i < length ps. \<exists>G dG force.
                peakFunction (U_val (fs ! i)) (mu_g (leniaParams cfg))
                  (sigma_g (leniaParams cfg)) 1 = (G, dG)
              \<and> force = subVectors (multiplyScalar (U_grad (fs ! i)) dG) (R_grad (fs ! i))
              \<and> velocity (vs ! i) =
                  multiplyScalar
                    (addScaledVector (velocity (ps ! i)) force (dt (leniaParams cfg)))
                    (damping cfg)
              \<and> position (vs ! i) = position (ps ! i)
              \<and> velocity (ps' ! i) = velocity (vs ! i)
              \<and> position (ps' ! i) =
                  wrapVector cfg
                    (addScaledVector (position (ps ! i)) (velocity (vs ! i))
                       (dt (leniaParams cfg))))"
proof -
  obtain fs where fs: "computeFields cfg ps = Inr fs"
    using computeFields_Inr [OF assms] by blast
  have len: "length fs = length ps"
    using fs by (rule computeFields_length)
  define vs where "vs = map (updateVelocity cfg) fs"
  define ps' where "ps' = map (updatePosition cfg) vs"
  have step: "simulationStep cfg ps = Inr ps'"
    by (simp add: simulationStep_def fs ps'_def vs_def)
  have each: "\<exists>G dG force.
                peakFunction (U_val (fs ! i)) (mu_g (leniaParams cfg))
                  (sigma_g (leniaParams cfg)) 1 = (G, dG)
              \<and> force = subVectors (multiplyScalar (U_grad (fs ! i)) dG) (R_grad (fs ! i))
              \<and> velocity (vs ! i) =
                  multiplyScalar
                    (addScaledVector (velocity (ps ! i)) force (dt (leniaParams cfg)))
                    (damping cfg)
              \<and> position (vs ! i) = position (ps ! i)
              \<and> velocity (ps' ! i) = velocity (vs ! i)
              \<and> position (ps' ! i) =
                  wrapVector cfg
                    (addScaledVector (position (ps ! i)) (velocity (vs ! i))
                       (dt (leniaParams cfg)))"
    if i: "i < length ps" for i
  proof -
    obtain G dG where G: "peakFunction (U_val (fs ! i)) (mu_g (leniaParams cfg))
                  (sigma_g (leniaParams cfg)) 1 = (G, dG)"
      by (cases "peakFunction (U_val (fs ! i)) (mu_g (leniaParams cfg))
                  (sigma_g (leniaParams cfg)) 1")
    have kin: "position (fs ! i) = position (ps ! i)" "velocity (fs ! i) = velocity (ps ! i)"
      using computeFields_nth [OF fs i] by simp_all
    have v: "vs ! i = updateVelocity cfg (fs ! i)"
      using i len by (simp add: vs_def)
    have p: "ps' ! i = updatePosition cfg (vs ! i)"
      using i len by (simp add: ps'_def vs_def)
    have "velocity (vs ! i) =
            multiplyScalar
              (addScaledVector (velocity (ps ! i))
                 (subVectors (multiplyScalar (U_grad (fs ! i)) dG) (R_grad (fs ! i)))
                 (dt (leniaParams cfg)))
              (damping cfg)"
      unfolding v updateVelocity_eq [OF G] using kin by simp
    moreover have "position (vs ! i) = position (ps ! i)"
      unfolding v updateVelocity_eq [OF G] using kin by simp
    moreover have "velocity (ps' ! i) = velocity (vs ! i)"
      unfolding p updatePosition_eq by simp
    moreover have "position (ps' ! i) =
                  wrapVector cfg
                    (addScaledVector (position (ps ! i)) (velocity (vs ! i))
                       (dt (leniaParams cfg)))"
      unfolding p updatePosition_eq using \<open>position (vs ! i) = position (ps ! i)\<close> by simp
    ultimately show ?thesis using G by blast
  qed
  have main: "computeFields cfg ps = Inr fs \<and> length fs = length ps
         \<and> vs = map (updateVelocity cfg) fs
         \<and> ps' = map (updatePosition cfg) vs
         \<and> simulationStep cfg ps = Inr ps'
         \<and> (\<forall>i < length ps. \<exists>G dG force.
                peakFunction (U_val (fs ! i)) (mu_g (leniaParams cfg))
                  (sigma_g (leniaParams cfg)) 1 = (G, dG)
              \<and> force = subVectors (multiplyScalar (U_grad (fs ! i)) dG) (R_grad (fs ! i))
              \<and> velocity (vs ! i) =
                  multiplyScalar
                    (addScaledVector (velocity (ps ! i)) force (dt (leniaParams cfg)))
                    (damping cfg)
              \<and> position (vs ! i) = position (ps ! i)
              \<and> velocity (ps' ! i) = velocity (vs ! i)
              \<and> position (ps' ! i) =
                  wrapVector cfg
                    (addScaledVector (position (ps ! i)) (velocity (vs ! i))
                       (dt (leniaParams cfg))))"
    using fs len vs_def ps'_def step each by (intro conjI allI impI) (fast+)
  show ?thesis
    by (rule exI)+ (rule main)
qed

theorem simulationStep_phases_witness:
  "nat (particleCount config2) \<le> length twoParticles
   \<and> (\<exists>fs vs ps'.
           computeFields config2 twoParticles = Inr fs \<and> length fs = 2
         \<and> vs = map (updateVelocity config2) fs
         \<and> ps' = map (updatePosition config2) vs
         \<and> simulationStep config2 twoParticles = Inr ps'
         \<and> position (vs ! 0) = position (twoParticles ! 0)
         \<and> position (vs ! 1) = position (twoParticles ! 1)
         \<and> velocity (ps' ! 0) = velocity (vs ! 0)
         \<and> position (ps' ! 1) =
              wrapVector config2
                (addScaledVector (position (twoParticles ! 1)) (velocity (vs ! 1))
                   (dt (leniaParams config2))))"
proof -
  have h: "nat (particleCount config2) \<le> length twoParticles"
    by (simp add: config2_def twoParticles_def)
  have l: "length twoParticles = 2"
    by (simp add: twoParticles_def)
  from simulationStep_phases [OF h] obtain fs vs ps' where
    a: "computeFields config2 twoParticles = Inr fs" "length fs = length twoParticles"
      "vs = map (updateVelocity config2) fs" "ps' = map (updatePosition config2) vs"
      "simulationStep config2 twoParticles = Inr ps'"
    and e: "\<forall>i < length twoParticles. \<exists>G dG force.
                peakFunction (U_val (fs ! i)) (mu_g (leniaParams config2))
                  (sigma_g (leniaParams config2)) 1 = (G, dG)
              \<and> force = subVectors (multiplyScalar (U_grad (fs ! i)) dG) (R_grad (fs ! i))
              \<and> velocity (vs ! i) =
                  multiplyScalar
                    (addScaledVector (velocity (twoParticles ! i)) force (dt (leniaParams config2)))
                    (damping config2)
              \<and> position (vs ! i) = position (twoParticles ! i)
              \<and> velocity (ps' ! i) = velocity (vs ! i)
              \<and> position (ps' ! i) =
                  wrapVector config2
                    (addScaledVector (position (twoParticles ! i)) (velocity (vs ! i))
                       (dt (leniaParams config2)))"
    by blast
  from e [rule_format, of 0] e [rule_format, of 1] have
    "position (vs ! 0) = position (twoParticles ! 0)"
    "position (vs ! 1) = position (twoParticles ! 1)"
    "velocity (ps' ! 0) = velocity (vs ! 0)"
    "position (ps' ! 1) =
              wrapVector config2
                (addScaledVector (position (twoParticles ! 1)) (velocity (vs ! 1))
                   (dt (leniaParams config2)))"
    unfolding l by auto
  with a h show ?thesis
    unfolding l by blast
qed

lemma computeFields_single:
  "particleCount cfg = 1 \<Longrightarrow> computeFields cfg [p] = Inr [resetFields cfg p]"
  by (simp add: computeFields_def)

lemma computeFields_two:
  assumes "particleCount cfg = 2"
    and "interact cfg (resetFields cfg a) (resetFields cfg b) = (q1, q2)"
  shows "computeFields cfg [a, b] = Inr [q1, q2]"
proof -
  have "[0..<2] = [0, Suc 0]" "[Suc 0..<2] = [Suc 0]" "[Suc (Suc 0)..<2] = []"
    by (simp_all add: upt_rec)
  then show ?thesis
    using assms by (simp add: computeFields_def pairInteraction_def)
qed

lemma wrapCoordinate_inside:
  "- (worldSize cfg / 2) \<le> c \<Longrightarrow> c \<le> worldSize cfg / 2 \<Longrightarrow> wrapCoordinate cfg c = c"
  by (simp add: wrapCoordinate_def Let_def)

lemma wrapCoordinate_closed:
  "0 < worldSize cfg \<Longrightarrow> - (3 * worldSize cfg / 2) \<le> c \<Longrightarrow> c \<le> 3 * worldSize cfg / 2 \<Longrightarrow>
   - (worldSize cfg / 2) \<le> wrapCoordinate cfg c \<and> wrapCoordinate cfg c \<le> worldSize cfg / 2"
  by (auto simp: wrapCoordinate_def Let_def)

lemma wrapCoordinate_excess:
  "0 < worldSize cfg \<Longrightarrow> worldSize cfg / 2 < c \<Longrightarrow> wrapCoordinate cfg c = c - worldSize cfg"
  by (auto simp: wrapCoordinate_def Let_def)

lemma wrapCoordinate_below:
  "0 < worldSize cfg \<Longrightarrow> c < - (worldSize cfg / 2) \<Longrightarrow> wrapCoordinate cfg c = c + worldSize cfg"
  by (auto simp: wrapCoordinate_def Let_def)

lemma wrapCoordinate_odd:
  "0 \<le> worldSize cfg \<Longrightarrow> wrapCoordinate cfg (- c) = - wrapCoordinate cfg c"
  by (auto simp: wrapCoordinate_def Let_def)

text \<open>For a negative world size the two tests overlap and the wrap is not odd.\<close>

lemma wrapCoordinate_negative_world:
  "wrapCoordinate (config0\<lparr>worldSize := - 2\<rparr>) 0 = - 2"
  by (simp add: wrapCoordinate_def)

lemma simulationStep_single:
  "particleCount cfg = 1 \<Longrightarrow>
   simulationStep cfg [p] = Inr [updatePosition cfg (updateVelocity cfg (resetFields cfg p))]"
  by (simp add: simulationStep_def computeFields_single)

lemma force_zero:
  "subVectors (multiplyScalar zeroVector s) zeroVector = zeroVector"
  by (simp add: subVectors_def multiplyScalar_def zeroVector_def)

lemma updateVelocity_resetFields:
  "velocity (updateVelocity cfg (resetFields cfg p)) = multiplyScalar (velocity p) (damping cfg)"
  by (cases "velocity p")
     (simp add: updateVelocity_def resetFields_def Let_def split_beta force_zero,
      simp add: addScaledVector_def multiplyScalar_def zeroVector_def)

lemma axes_addScaledVector:
  "c \<in> set axes \<Longrightarrow> c (addScaledVector a b s) = c a + c b * s"
  by (auto simp: axes_def addScaledVector_def)

lemma axes_wrapVector:
  "c \<in> set axes \<Longrightarrow> c (wrapVector cfg q) = wrapCoordinate cfg (c q)"
  by (auto simp: axes_def wrapVector_def)

lemma Vector3_eqI:
  assumes "\<And>c. c \<in> set axes \<Longrightarrow> c (a :: Vector3) = c b"
  shows "a = b"
proof -
  have "comp_x a = comp_x b" "comp_y a = comp_y b" "comp_z a = comp_z b"
    by (rule assms, simp add: axes_def)+
  then show ?thesis by simp
qed

lemma wrapVector_inside:
  assumes "\<forall>c \<in> set axes. - (worldSize cfg / 2) \<le> c q \<and> c q \<le> worldSize cfg / 2"
  shows "wrapVector cfg q = q"
  using assms by (intro Vector3_eqI) (simp add: axes_wrapVector wrapCoordinate_inside)

text \<open>
  C7. Take a configuration with one particle and non-zero spreads \<^verbatim>\<open>sigma_k\<close> and
  \<^verbatim>\<open>sigma_g\<close> (so that the divisions of the peak function are defined), and a store of
  one particle at rest whose coordinates lie within the wrap domain. One step leaves
  \<^verbatim>\<open>U_val\<close> equal to the value of the peak function at 0 with the kernel parameters, the
  self-term; both gradient accumulators are zero, hence the force is the zero vector, the
  velocity stays zero and the position is unchanged.
\<close>

theorem single_particle_step:
  assumes count: "particleCount cfg = 1"
    and rest: "velocity p = zeroVector"
    and inside: "\<forall>c \<in> set axes. - (worldSize cfg / 2) \<le> c (position p)
                                 \<and> c (position p) \<le> worldSize cfg / 2"
    and spreads: "sigma_k (leniaParams cfg) \<noteq> 0" "sigma_g (leniaParams cfg) \<noteq> 0"
  shows "\<exists>fs p' dG.
           computeFields cfg [p] = Inr [fs]
         \<and> simulationStep cfg [p] = Inr [p']
         \<and> U_val fs = fst (peakFunction 0 (mu_k (leniaParams cfg)) (sigma_k (leniaParams cfg))
                              (w_k (leniaParams cfg)))
         \<and> U_val p' = U_val fs
         \<and> R_grad p' = zeroVector \<and> U_grad p' = zeroVector
         \<and> dG = snd (peakFunction (U_val fs) (mu_g (leniaParams cfg))
                       (sigma_g (leniaParams cfg)) 1)
         \<and> subVectors (multiplyScalar (U_grad fs) dG) (R_grad fs) = zeroVector
         \<and> velocity p' = zeroVector
         \<and> position p' = position p"
proof -
  define fs where "fs = resetFields cfg p"
  define v where "v = updateVelocity cfg fs"
  define p' where "p' = updatePosition cfg v"
  define dG where "dG = snd (peakFunction (U_val fs) (mu_g (leniaParams cfg))
                       (sigma_g (leniaParams cfg)) 1)"
  have cf: "computeFields cfg [p] = Inr [fs]"
    using count by (simp add: computeFields_single fs_def)
  have step: "simulationStep cfg [p] = Inr [p']"
    using count by (simp add: simulationStep_single fs_def v_def p'_def)
  have fields: "U_val fs = fst (peakFunction 0 (mu_k (leniaParams cfg)) (sigma_k (leniaParams cfg))
                              (w_k (leniaParams cfg)))"
    "R_grad fs = zeroVector" "U_grad fs = zeroVector" "position fs = position p"
    by (simp_all add: fs_def resetFields_def)
  have force: "subVectors (multiplyScalar (U_grad fs) dG) (R_grad fs) = zeroVector"
    by (simp add: fields force_zero)
  have vel: "velocity v = zeroVector"
    unfolding v_def fs_def updateVelocity_resetFields rest
    by (simp add: multiplyScalar_def zeroVector_def)
  have v_rest: "position v = position p" "U_val v = U_val fs" "R_grad v = zeroVector"
    "U_grad v = zeroVector"
    by (simp_all add: v_def updateVelocity_def Let_def split_beta fields)
  have moved: "addScaledVector (position v) (velocity v) (dt (leniaParams cfg)) = position p"
    unfolding vel v_rest by (cases "position p") (simp add: addScaledVector_def zeroVector_def)
  have p'_eq: "velocity p' = zeroVector" "U_val p' = U_val fs" "R_grad p' = zeroVector"
    "U_grad p' = zeroVector" "position p' = wrapVector cfg (position p)"
    unfolding p'_def updatePosition_eq moved by (simp_all add: vel v_rest)
  have pos: "position p' = position p"
    unfolding p'_eq using inside by (rule wrapVector_inside)
  have main: "computeFields cfg [p] = Inr [fs]
         \<and> simulationStep cfg [p] = Inr [p']
         \<and> U_val fs = fst (peakFunction 0 (mu_k (leniaParams cfg)) (sigma_k (leniaParams cfg))
                              (w_k (leniaParams cfg)))
         \<and> U_val p' = U_val fs
         \<and> R_grad p' = zeroVector \<and> U_grad p' = zeroVector
         \<and> dG = snd (peakFunction (U_val fs) (mu_g (leniaParams cfg))
                       (sigma_g (leniaParams cfg)) 1)
         \<and> subVectors (multiplyScalar (U_grad fs) dG) (R_grad fs) = zeroVector
         \<and> velocity p' = zeroVector
         \<and> position p' = position p"
    using cf step fields(1) p'_eq(1-4) dG_def force pos by (intro conjI) (fast+)
  show ?thesis
    by (rule exI)+ (rule main)
qed

theorem single_particle_step_witness:
  "particleCount config1 = 1 \<and> velocity (particleAt 1 2 3) = zeroVector
   \<and> (let c = position (particleAt 1 2 3); h = worldSize config1 / 2
      in - h \<le> comp_x c \<and> comp_x c \<le> h \<and> - h \<le> comp_y c \<and> comp_y c \<le> h
         \<and> - h \<le> comp_z c \<and> comp_z c \<le> h)
   \<and> sigma_k (leniaParams config1) \<noteq> 0 \<and> sigma_g (leniaParams config1) \<noteq> 0
   \<and> (\<exists>p'. simulationStep config1 [particleAt 1 2 3] = Inr [p']
          \<and> velocity p' = zeroVector \<and> position p' = position (particleAt 1 2 3)
          \<and> R_grad p' = zeroVector \<and> U_grad p' = zeroVector
          \<and> U_val p' = fst (peakFunction 0 4 1 (22 / 1000)))"
proof -
  have h: "particleCount config1 = 1" "velocity (particleAt 1 2 3) = zeroVector"
    "\<forall>c \<in> set axes. - (worldSize config1 / 2) \<le> c (position (particleAt 1 2 3))
                   \<and> c (position (particleAt 1 2 3)) \<le> worldSize config1 / 2"
    "sigma_k (leniaParams config1) \<noteq> 0" "sigma_g (leniaParams config1) \<noteq> 0"
    by (simp_all add: config1_def config0_def particleAt_def axes_def)
  have k: "mu_k (leniaParams config1) = 4" "sigma_k (leniaParams config1) = 1"
    "w_k (leniaParams config1) = 22 / 1000"
    by (simp_all add: config1_def config0_def)
  from single_particle_step [OF h] obtain p' where
    "simulationStep config1 [particleAt 1 2 3] = Inr [p']
          \<and> velocity p' = zeroVector \<and> position p' = position (particleAt 1 2 3)
          \<and> R_grad p' = zeroVector \<and> U_grad p' = zeroVector
          \<and> U_val p' = fst (peakFunction 0 4 1 (22 / 1000))"
    unfolding k by auto
  then have "\<exists>p'. simulationStep config1 [particleAt 1 2 3] = Inr [p']
          \<and> velocity p' = zeroVector \<and> position p' = position (particleAt 1 2 3)
          \<and> R_grad p' = zeroVector \<and> U_grad p' = zeroVector
          \<and> U_val p' = fst (peakFunction 0 4 1 (22 / 1000))" ..
  with h(1,2,4,5) show ?thesis
    by (simp add: Let_def config1_def config0_def particleAt_def)
qed

lemma simulationStep_Inr:
  "computeFields cfg ps = Inr fs \<Longrightarrow>
   simulationStep cfg ps = Inr (map (updatePosition cfg) (map (updateVelocity cfg) fs))"
  by (simp add: simulationStep_def)

lemma updateVelocity_position: "position (updateVelocity cfg p) = position p"
  by (simp add: updateVelocity_def Let_def split_beta)

text \<open>
  C3, as amended. Let the world size be positive and the store hold at least
  \<^verbatim>\<open>particleCount\<close> particles. The wrapper adds or subtracts the world size at most once
  per axis, with strict comparisons. So after a step, for every particle and every axis,
  with \<open>moved\<close> the coordinate that the position pass computes before the wrap: if
  \<open>moved\<close> lies in the closed interval \<open>[- worldSize / 2, worldSize / 2]\<close> it is kept as it
  is, both end points included; if \<open>moved\<close> is below \<open>- worldSize / 2\<close> the world size is
  added once; if \<open>moved\<close> is above \<open>worldSize / 2\<close> the world size is subtracted once, so
  the coordinate ends at \<open>- worldSize / 2\<close> plus the excess. Hence a coordinate moved to a
  place within one and a half world sizes of the origin ends in the closed interval, and so
  does a coordinate that was in the closed interval before the step and is displaced by at
  most the world size.
\<close>

theorem boundary_wrap_closed:
  assumes world: "0 < worldSize cfg" and count: "nat (particleCount cfg) \<le> length ps"
  shows "\<exists>fs vs ps'.
           computeFields cfg ps = Inr fs
         \<and> vs = map (updateVelocity cfg) fs
         \<and> simulationStep cfg ps = Inr ps' \<and> length ps' = length ps
         \<and> (\<forall>i < length ps. \<forall>c \<in> set axes.
              (let W = worldSize cfg;
                   before = c (position (ps ! i));
                   moved = before + c (velocity (vs ! i)) * dt (leniaParams cfg);
                   after = c (position (ps' ! i))
               in (- (3 * W / 2) \<le> moved \<and> moved \<le> 3 * W / 2
                     \<longrightarrow> - (W / 2) \<le> after \<and> after \<le> W / 2)
                \<and> (W / 2 < moved \<longrightarrow> after = - (W / 2) + (moved - W / 2))
                \<and> (- (W / 2) \<le> before \<and> before \<le> W / 2
                      \<and> \<bar>c (velocity (vs ! i)) * dt (leniaParams cfg)\<bar> \<le> W
                     \<longrightarrow> - (W / 2) \<le> after \<and> after \<le> W / 2)
                \<and> (- (W / 2) \<le> moved \<and> moved \<le> W / 2 \<longrightarrow> after = moved)
                \<and> (moved < - (W / 2) \<longrightarrow> after = moved + W)))"
proof -
  obtain fs where fs: "computeFields cfg ps = Inr fs"
    using computeFields_Inr [OF count] by blast
  have len: "length fs = length ps"
    using fs by (rule computeFields_length)
  define vs where "vs = map (updateVelocity cfg) fs"
  define ps' where "ps' = map (updatePosition cfg) vs"
  have step: "simulationStep cfg ps = Inr ps'"
    using fs by (simp add: simulationStep_Inr ps'_def vs_def)
  have len': "length ps' = length ps"
    by (simp add: ps'_def vs_def len)
  have each:
    "(let W = worldSize cfg;
          before = c (position (ps ! i));
          moved = before + c (velocity (vs ! i)) * dt (leniaParams cfg);
          after = c (position (ps' ! i))
      in (- (3 * W / 2) \<le> moved \<and> moved \<le> 3 * W / 2
            \<longrightarrow> - (W / 2) \<le> after \<and> after \<le> W / 2)
       \<and> (W / 2 < moved \<longrightarrow> after = - (W / 2) + (moved - W / 2))
       \<and> (- (W / 2) \<le> before \<and> before \<le> W / 2
             \<and> \<bar>c (velocity (vs ! i)) * dt (leniaParams cfg)\<bar> \<le> W
            \<longrightarrow> - (W / 2) \<le> after \<and> after \<le> W / 2)
       \<and> (- (W / 2) \<le> moved \<and> moved \<le> W / 2 \<longrightarrow> after = moved)
       \<and> (moved < - (W / 2) \<longrightarrow> after = moved + W))"
    if i: "i < length ps" and c: "c \<in> set axes" for i c
  proof -
    define moved where
      "moved = c (position (ps ! i)) + c (velocity (vs ! i)) * dt (leniaParams cfg)"
    have "position (vs ! i) = position (fs ! i)"
      using i len by (simp add: vs_def updateVelocity_position)
    then have pos: "position (vs ! i) = position (ps ! i)"
      using computeFields_nth(1) [OF fs i] by simp
    have "ps' ! i = updatePosition cfg (vs ! i)"
      using i len by (simp add: ps'_def vs_def)
    then have after: "c (position (ps' ! i)) = wrapCoordinate cfg moved"
      by (simp add: updatePosition_eq axes_wrapVector [OF c] axes_addScaledVector [OF c]
          pos moved_def)
    have a: "- (worldSize cfg / 2) \<le> wrapCoordinate cfg moved
             \<and> wrapCoordinate cfg moved \<le> worldSize cfg / 2"
      if "- (3 * worldSize cfg / 2) \<le> moved" "moved \<le> 3 * worldSize cfg / 2"
      using wrapCoordinate_closed [OF world that] .
    have b: "wrapCoordinate cfg moved = - (worldSize cfg / 2) + (moved - worldSize cfg / 2)"
      if "worldSize cfg / 2 < moved"
      using wrapCoordinate_excess [OF world that] by simp
    have d: "- (3 * worldSize cfg / 2) \<le> moved \<and> moved \<le> 3 * worldSize cfg / 2"
      if "- (worldSize cfg / 2) \<le> c (position (ps ! i))"
        "c (position (ps ! i)) \<le> worldSize cfg / 2"
        "\<bar>c (velocity (vs ! i)) * dt (leniaParams cfg)\<bar> \<le> worldSize cfg"
      using that unfolding moved_def by linarith
    have e: "wrapCoordinate cfg moved = moved"
      if "- (worldSize cfg / 2) \<le> moved" "moved \<le> worldSize cfg / 2"
      using that by (rule wrapCoordinate_inside)
    have f: "wrapCoordinate cfg moved = moved + worldSize cfg"
      if "moved < - (worldSize cfg / 2)"
      using world that by (rule wrapCoordinate_below)
    show ?thesis
      unfolding Let_def moved_def [symmetric] after
      using a b d e f by blast
  qed
  have main: "computeFields cfg ps = Inr fs
         \<and> vs = map (updateVelocity cfg) fs
         \<and> simulationStep cfg ps = Inr ps' \<and> length ps' = length ps
         \<and> (\<forall>i < length ps. \<forall>c \<in> set axes.
              (let W = worldSize cfg;
                   before = c (position (ps ! i));
                   moved = before + c (velocity (vs ! i)) * dt (leniaParams cfg);
                   after = c (position (ps' ! i))
               in (- (3 * W / 2) \<le> moved \<and> moved \<le> 3 * W / 2
                     \<longrightarrow> - (W / 2) \<le> after \<and> after \<le> W / 2)
                \<and> (W / 2 < moved \<longrightarrow> after = - (W / 2) + (moved - W / 2))
                \<and> (- (W / 2) \<le> before \<and> before \<le> W / 2
                      \<and> \<bar>c (velocity (vs ! i)) * dt (leniaParams cfg)\<bar> \<le> W
                     \<longrightarrow> - (W / 2) \<le> after \<and> after \<le> W / 2)
                \<and> (- (W / 2) \<le> moved \<and> moved \<le> W / 2 \<longrightarrow> after = moved)
                \<and> (moved < - (W / 2) \<longrightarrow> after = moved + W)))"
    using fs vs_def step len' each by (intro conjI ballI allI impI) (fast+)
  show ?thesis
    by (rule exI)+ (rule main)
qed

lemma step_single_position_x:
  "particleCount cfg = 1 \<Longrightarrow>
   map_sum id (map (comp_x \<circ> position)) (simulationStep cfg [p]) =
     Inr [wrapCoordinate cfg
            (comp_x (position p) + comp_x (velocity p) * damping cfg * dt (leniaParams cfg))]"
  by (simp add: simulationStep_single updatePosition_eq wrapVector_def addScaledVector_def
      updateVelocity_position updateVelocity_resetFields multiplyScalar_def)
     (simp add: resetFields_def)

text \<open>
  The claim as written fails in two ways: a particle at rest exactly at \<open>worldSize / 2\<close>
  stays there, outside the half-open interval, and a fast particle is still outside the
  domain after the single wrap.
\<close>

theorem boundary_wrap_counterexample:
  "map_sum id (map (comp_x \<circ> position)) (simulationStep config1 [particleAt (25 / 2) 0 0])
     = Inr [25 / 2]
   \<and> \<not> 25 / 2 < worldSize config1 / 2
   \<and> map_sum id (map (comp_x \<circ> position)) (simulationStep config1 [fastParticle]) = Inr [85]
   \<and> \<not> 85 < worldSize config1 / 2"
proof -
  have one: "particleCount config1 = 1"
    by (simp add: config1_def)
  have world: "worldSize config1 = 25" "damping config1 = 98 / 100"
    "dt (leniaParams config1) = 1 / 10"
    by (simp_all add: config1_def config0_def)
  show ?thesis
    unfolding step_single_position_x [OF one]
    by (simp add: world particleAt_def fastParticle_def zeroVector_def wrapCoordinate_def)
qed


theorem boundary_wrap_closed_witness:
  "0 < worldSize config1 \<and> nat (particleCount config1) \<le> length [movingParticle]
   \<and> (\<exists>ps'. simulationStep config1 [movingParticle] = Inr ps' \<and> length ps' = 1
          \<and> comp_x (position (ps' ! 0)) = - (25 / 2) + 48 / 100
          \<and> comp_y (position (ps' ! 0)) = 0)"
proof -
  have one: "particleCount config1 = 1"
    by (simp add: config1_def)
  have world: "worldSize config1 = 25" "damping config1 = 98 / 100"
    "dt (leniaParams config1) = 1 / 10"
    by (simp_all add: config1_def config0_def)
  have h: "0 < worldSize config1" "nat (particleCount config1) \<le> length [movingParticle]"
    by (simp_all add: world one)
  from boundary_wrap_closed [OF h] obtain fs vs ps' where
    fs: "computeFields config1 [movingParticle] = Inr fs"
    and vs: "vs = map (updateVelocity config1) fs"
    and step: "simulationStep config1 [movingParticle] = Inr ps'" "length ps' = 1"
    and each: "\<forall>i < length [movingParticle]. \<forall>c \<in> set axes.
              (let W = worldSize config1;
                   before = c (position ([movingParticle] ! i));
                   moved = before + c (velocity (vs ! i)) * dt (leniaParams config1);
                   after = c (position (ps' ! i))
               in (- (3 * W / 2) \<le> moved \<and> moved \<le> 3 * W / 2
                     \<longrightarrow> - (W / 2) \<le> after \<and> after \<le> W / 2)
                \<and> (W / 2 < moved \<longrightarrow> after = - (W / 2) + (moved - W / 2))
                \<and> (- (W / 2) \<le> before \<and> before \<le> W / 2
                      \<and> \<bar>c (velocity (vs ! i)) * dt (leniaParams config1)\<bar> \<le> W
                     \<longrightarrow> - (W / 2) \<le> after \<and> after \<le> W / 2)
                \<and> (- (W / 2) \<le> moved \<and> moved \<le> W / 2 \<longrightarrow> after = moved)
                \<and> (moved < - (W / 2) \<longrightarrow> after = moved + W))"
    by auto
  have "fs = [resetFields config1 movingParticle]"
    using fs by (simp add: computeFields_single [OF one])
  then have v: "velocity (vs ! 0) = \<lparr>comp_x = 98 / 10, comp_y = 0, comp_z = 0\<rparr>"
    by (simp add: vs updateVelocity_resetFields movingParticle_def multiplyScalar_def world)
  have p: "position movingParticle = \<lparr>comp_x = 12, comp_y = 0, comp_z = 0\<rparr>"
    by (simp add: movingParticle_def particleAt_def)
  from each have "comp_x (position (ps' ! 0)) = - (25 / 2) + 48 / 100"
    by (simp add: axes_def Let_def v p world)
  moreover from each have "comp_y (position (ps' ! 0)) = 0"
    by (simp add: axes_def Let_def v p world)
  ultimately show ?thesis
    using h step by simp
qed

section \<open>Mirror symmetry of two particles\<close>

lemma interact_mirrored:
  assumes "position b = negate (position a)"
    and "interact cfg (resetFields cfg a) (resetFields cfg b) = (q1, q2)"
  shows "U_val q2 = U_val q1" and "R_grad q2 = negate (R_grad q1)"
    and "U_grad q2 = negate (U_grad q1)"
  using assms
  by (auto simp: interact_def resetFields_def Let_def negate_def zeroVector_def
      split: if_splits prod.splits)

lemma updateVelocity_mirrored:
  assumes "U_val q2 = U_val q1" and "R_grad q2 = negate (R_grad q1)"
    and "U_grad q2 = negate (U_grad q1)" and "velocity q2 = negate (velocity q1)"
  shows "velocity (updateVelocity cfg q2) = negate (velocity (updateVelocity cfg q1))"
  using assms
  by (simp add: updateVelocity_def Let_def split_beta negate_def multiplyScalar_def
      subVectors_def addScaledVector_def algebra_simps)

lemma updatePosition_mirrored:
  assumes "0 \<le> worldSize cfg"
    and "position v2 = negate (position v1)" and "velocity v2 = negate (velocity v1)"
  shows "mirrored (updatePosition cfg v1) (updatePosition cfg v2)"
  using assms
  by (simp add: mirrored_def updatePosition_def Let_def negate_def addScaledVector_def
      wrapCoordinate_odd [symmetric])

lemma simulationStep_mirrored:
  assumes count: "particleCount cfg = 2" and world: "0 \<le> worldSize cfg"
    and m: "mirrored a b"
  shows "\<exists>a' b'. simulationStep cfg [a, b] = Inr [a', b'] \<and> mirrored a' b'"
proof -
  obtain q1 q2 where q: "interact cfg (resetFields cfg a) (resetFields cfg b) = (q1, q2)"
    by (cases "interact cfg (resetFields cfg a) (resetFields cfg b)")
  have fs: "computeFields cfg [a, b] = Inr [q1, q2]"
    using count q by (rule computeFields_two)
  have pos: "position b = negate (position a)" and vel: "velocity b = negate (velocity a)"
    using m by (simp_all add: mirrored_def)
  have kin: "position q1 = position a" "velocity q1 = velocity a"
    "position q2 = position b" "velocity q2 = velocity b"
    using computeFields_nth [OF fs, of 0] computeFields_nth [OF fs, of 1] by simp_all
  note acc = interact_mirrored [OF pos q]
  have v: "velocity (updateVelocity cfg q2) = negate (velocity (updateVelocity cfg q1))"
    using acc by (rule updateVelocity_mirrored) (simp add: kin vel)
  have p: "position (updateVelocity cfg q2) = negate (position (updateVelocity cfg q1))"
    by (simp add: updateVelocity_position kin pos)
  have "mirrored (updatePosition cfg (updateVelocity cfg q1))
          (updatePosition cfg (updateVelocity cfg q2))"
    using world p v by (rule updatePosition_mirrored)
  moreover have "simulationStep cfg [a, b] =
      Inr [updatePosition cfg (updateVelocity cfg q1), updatePosition cfg (updateVelocity cfg q2)]"
    by (simp add: simulationStep_Inr [OF fs])
  ultimately show ?thesis by blast
qed

text \<open>
  C8. Take a configuration with two particles, a world size that is not negative and
  non-zero spreads, and a store of two particles whose positions are negations of each other
  and whose velocities are negations of each other. Then any number of steps succeeds and
  leaves two particles whose positions, and velocities, are again negations of each other:
  the mirror symmetry about the origin is kept by the step, boundary wrap included.
\<close>

theorem runSteps_mirrored:
  assumes "particleCount cfg = 2" and "0 \<le> worldSize cfg"
    and "sigma_k (leniaParams cfg) \<noteq> 0" and "sigma_g (leniaParams cfg) \<noteq> 0"
    and "position b = negate (position a)" and "velocity b = negate (velocity a)"
  shows "\<exists>a' b'. runSteps cfg n [a, b] = Inr [a', b']
           \<and> position b' = negate (position a') \<and> velocity b' = negate (velocity a')"
proof -
  have "mirrored a b \<Longrightarrow> \<exists>a' b'. runSteps cfg n [a, b] = Inr [a', b'] \<and> mirrored a' b'"
    for a b
  proof (induction n arbitrary: a b)
    case 0
    then show ?case by simp
  next
    case (Suc n)
    from simulationStep_mirrored [OF assms(1,2) Suc.prems]
    obtain a1 b1 where s: "simulationStep cfg [a, b] = Inr [a1, b1]" "mirrored a1 b1"
      by blast
    from Suc.IH [OF s(2)] s(1) show ?case by simp
  qed
  with assms(5,6) show ?thesis
    by (simp add: mirrored_def)
qed

theorem runSteps_mirrored_witness:
  "particleCount config2 = 2 \<and> 0 \<le> worldSize config2
   \<and> sigma_k (leniaParams config2) \<noteq> 0 \<and> sigma_g (leniaParams config2) \<noteq> 0
   \<and> position (twoParticles ! 1) = negate (position (twoParticles ! 0))
   \<and> velocity (twoParticles ! 1) = negate (velocity (twoParticles ! 0))
   \<and> (\<exists>a' b'. runSteps config2 10 twoParticles = Inr [a', b']
           \<and> position b' = negate (position a') \<and> velocity b' = negate (velocity a'))"
proof -
  have h: "particleCount config2 = 2" "0 \<le> worldSize config2"
    "sigma_k (leniaParams config2) \<noteq> 0" "sigma_g (leniaParams config2) \<noteq> 0"
    "position (particleAt 1 0 0) = negate (position (particleAt (- 1) 0 0))"
    "velocity (particleAt 1 0 0) = negate (velocity (particleAt (- 1) 0 0))"
    by (simp_all add: config2_def config0_def particleAt_def negate_def zeroVector_def)
  from runSteps_mirrored [OF h, of 10] h show ?thesis
    by (simp add: twoParticles_def)
qed

section \<open>Divisions and the distance floor\<close>

lemma separation_positive: "0 < separation p1 p2"
proof -
  have "0 \<le> length3 (subVectors (position p1) (position p2))"
    by (simp add: length3_def)
  then show ?thesis by (simp add: separation_def add_nonneg_pos)
qed

lemma fastExp_square_ge_one: "1 \<le> fastExp (t * t)"
  by (rule fastExp_ge_one) simp

lemma peakFunction_divisors_nonzero:
  "sigma \<noteq> 0 \<Longrightarrow> d \<in> set (peakFunction_divisors r mu sigma) \<Longrightarrow> d \<noteq> 0"
  using fastExp_square_ge_one [of "(r - mu) / sigma"]
  by (auto simp: peakFunction_divisors_def fastExp_divisors_def Let_def)

lemma interact_divisors_nonzero:
  "sigma_k (leniaParams cfg) \<noteq> 0 \<Longrightarrow> d \<in> set (interact_divisors cfg p1 p2) \<Longrightarrow> d \<noteq> 0"
  using separation_positive [of p1 p2]
  by (auto simp: interact_divisors_def Let_def separation_def dest: peakFunction_divisors_nonzero)

lemma computeFields_divisors_nonzero:
  "sigma_k (leniaParams cfg) \<noteq> 0 \<Longrightarrow> d \<in> set (computeFields_divisors cfg ps) \<Longrightarrow> d \<noteq> 0"
  by (auto simp: computeFields_divisors_def Let_def split: if_splits
      dest: peakFunction_divisors_nonzero interact_divisors_nonzero)

lemma simulationStep_divisors_nonzero:
  "sigma_k (leniaParams cfg) \<noteq> 0 \<Longrightarrow> sigma_g (leniaParams cfg) \<noteq> 0 \<Longrightarrow>
   d \<in> set (simulationStep_divisors cfg ps) \<Longrightarrow> d \<noteq> 0"
  by (auto simp: simulationStep_divisors_def split: sum.splits
      dest: peakFunction_divisors_nonzero computeFields_divisors_nonzero)

lemma peakFunction_value_bounds:
  assumes "0 < w"
  shows "0 \<le> fst (peakFunction r mu sigma w)" and "fst (peakFunction r mu sigma w) \<le> w"
proof -
  define e where "e = fastExp ((r - mu) / sigma * ((r - mu) / sigma))"
  have e: "1 \<le> e" unfolding e_def by (rule fastExp_square_ge_one)
  have v: "fst (peakFunction r mu sigma w) = w / e"
    by (simp add: peakFunction_def Let_def e_def)
  show "0 \<le> fst (peakFunction r mu sigma w)"
    unfolding v using assms e by simp
  have "w / e \<le> w / 1"
    using assms e by (intro divide_left_mono) simp_all
  then show "fst (peakFunction r mu sigma w) \<le> w"
    unfolding v by simp
qed

text \<open>
  C9, as amended. In a configuration whose spreads \<^verbatim>\<open>sigma_k\<close> and \<^verbatim>\<open>sigma_g\<close> are not
  zero, no division of a step is by zero. For every pair of particles, coincident ones
  included, the distance used for the unit direction is the length of the separation plus
  \<open>10\<^sup>-\<^sup>2\<^sup>0\<close> and is positive; the denominator inside the peak function is
  \<open>(1 + t\<^sup>2 / 32) ^ 32\<close> and is at least 1 for every real \<open>t\<close>; and for a non-zero spread
  the value of the peak function satisfies \<open>0 \<le> value \<le> w\<close> whenever \<open>w > 0\<close>. That the
  value is positive is not part of the statement: where the denominator exceeds the largest
  double, the source divides by \<^verbatim>\<open>Infinity\<close> and returns the value 0.
\<close>

theorem no_division_by_zero:
  assumes "sigma_k (leniaParams cfg) \<noteq> 0" and "sigma_g (leniaParams cfg) \<noteq> 0"
  shows "(\<forall>d \<in> set (simulationStep_divisors cfg ps). d \<noteq> 0)
       \<and> (\<forall>p1 p2. separation p1 p2
                     = length3 (subVectors (position p1) (position p2)) + 1 / 10 ^ 20
                   \<and> 0 < separation p1 p2)
       \<and> (\<forall>t. fastExp (t * t) = (1 + t\<^sup>2 / 32) ^ 32 \<and> 1 \<le> (1 + t\<^sup>2 / 32) ^ 32)
       \<and> (\<forall>r mu sigma w. sigma \<noteq> 0 \<longrightarrow> 0 < w \<longrightarrow>
             0 \<le> fst (peakFunction r mu sigma w) \<and> fst (peakFunction r mu sigma w) \<le> w)"
proof (intro conjI allI impI ballI)
  fix d assume "d \<in> set (simulationStep_divisors cfg ps)"
  with assms show "d \<noteq> 0" by (rule simulationStep_divisors_nonzero)
next
  fix p1 p2
  show "separation p1 p2 = length3 (subVectors (position p1) (position p2)) + 1 / 10 ^ 20"
    by (simp add: separation_def)
  show "0 < separation p1 p2" by (rule separation_positive)
next
  fix t :: real
  show "fastExp (t * t) = (1 + t\<^sup>2 / 32) ^ 32"
    by (simp add: fastExp_power power2_eq_square)
  from fastExp_square_ge_one [of t] show "1 \<le> (1 + t\<^sup>2 / 32) ^ 32"
    by (simp add: fastExp_power power2_eq_square)
next
  fix r mu sigma w :: real
  assume "0 < w"
  then show "0 \<le> fst (peakFunction r mu sigma w)" "fst (peakFunction r mu sigma w) \<le> w"
    by (rule peakFunction_value_bounds)+
qed

theorem no_division_by_zero_witness:
  "sigma_k (leniaParams config2) \<noteq> 0 \<and> sigma_g (leniaParams config2) \<noteq> 0
   \<and> list_all (\<lambda>d. d \<noteq> 0) (simulationStep_divisors config2 twoParticles)
   \<and> 0 < separation (particleAt 0 0 0) (particleAt 0 0 0)
   \<and> 0 \<le> fst (peakFunction 0 4 1 (22 / 1000)) \<and> fst (peakFunction 0 4 1 (22 / 1000)) \<le> 22 / 1000"
proof -
  have h: "sigma_k (leniaParams config2) \<noteq> 0" "sigma_g (leniaParams config2) \<noteq> 0"
    by (simp_all add: config2_def config0_def)
  note t = no_division_by_zero [OF h, of twoParticles]
  from t have a: "list_all (\<lambda>d. d \<noteq> 0) (simulationStep_divisors config2 twoParticles)"
    unfolding list_all_iff by (rule conjunct1)
  from t have b: "0 < separation (particleAt 0 0 0) (particleAt 0 0 0)"
    by blast
  have "(1::real) \<noteq> 0" "(0::real) < 22 / 1000" by simp_all
  with t have c: "0 \<le> fst (peakFunction 0 4 1 (22 / 1000))
      \<and> fst (peakFunction 0 4 1 (22 / 1000)) \<le> 22 / 1000"
    by blast
  from h a b c show ?thesis by blast
qed

text \<open>
  The claim as written fails: the peak function divides by its spread, which nothing checks.
  With a kernel spread of zero a step on one particle completes, and zero is among its
  divisors.
\<close>

theorem division_by_zero_counterexample:
  "sigma_k (leniaParams configZeroSpread) = 0
   \<and> computeFields configZeroSpread [particleAt 0 0 0]
       = Inr [resetFields configZeroSpread (particleAt 0 0 0)]
   \<and> 0 \<in> set (simulationStep_divisors configZeroSpread [particleAt 0 0 0])"
proof -
  have one: "particleCount configZeroSpread = 1"
    by (simp add: configZeroSpread_def config1_def)
  have zero: "sigma_k (leniaParams configZeroSpread) = 0"
    by (simp add: configZeroSpread_def)
  show ?thesis
    by (simp add: zero computeFields_single [OF one] simulationStep_divisors_def
        computeFields_divisors_def peakFunction_divisors_def Let_def)
qed

end
